theory Spec2Isabelle
  imports Complex_Main
begin

section \<open>Billing check-in form: data model\<close>

text \<open>
  The repository holds two revisions of the check-in form component.
  \<^item> \<^verbatim>\<open>src/billing-form/billing-checkin-form.component.tsx\<close>: the revision with the
    recency waiver (\<^verbatim>\<open>isWaived\<close>). Its definitions carry the suffix \<open>W\<close>.
  \<^item> \<^verbatim>\<open>unnamed/part_000\<close>: the revision with the non-paying category
    (\<^verbatim>\<open>isNonPaying\<close>), the last-visit record and the reset effect. Its definitions
    carry the source's names.
  JavaScript values that matter are written out: a string state that may be
  \<^verbatim>\<open>undefined\<close> or \<^verbatim>\<open>null\<close>, a number that may be \<^verbatim>\<open>NaN\<close>,
  and a \<^verbatim>\<open>TypeError\<close> for a property read on \<^verbatim>\<open>undefined\<close>.
\<close>

datatype error = TypeError

text \<open>A value that is a string, \<^verbatim>\<open>null\<close> or \<^verbatim>\<open>undefined\<close>; \<open>===\<close> on such values is equality.\<close>

datatype jsstr = Undefined | Null | Str string

text \<open>JavaScript truthiness: \<^verbatim>\<open>undefined\<close>, \<^verbatim>\<open>null\<close> and the empty string are falsy.\<close>

fun truthy :: "jsstr \<Rightarrow> bool" where
  "truthy (Str s) = (s \<noteq> [])"
| "truthy _ = False"

text \<open>A number that may be \<^verbatim>\<open>NaN\<close>; the numbers that occur are whole.\<close>

datatype jsnum = NaN | Num int

text \<open>\<^verbatim>\<open>x <= 7\<close>: every comparison with \<^verbatim>\<open>NaN\<close> is false.\<close>

fun js_le :: "jsnum \<Rightarrow> int \<Rightarrow> bool" where
  "js_le NaN k = False"
| "js_le (Num n) k = (n \<le> k)"

subsection \<open>The FHIR search bundle of the last encounter\<close>

text \<open>
  The value of \<^verbatim>\<open>period.start\<close>, by what \<^verbatim>\<open>new Date(period.start).getTime()\<close>
  makes of it. Every value the property can hold is of one of four kinds:
  \<^item> \<open>Missing\<close>: the property is absent, so the value is \<^verbatim>\<open>undefined\<close>, and
    \<^verbatim>\<open>new Date(undefined)\<close> is an invalid date, whose time is \<^verbatim>\<open>NaN\<close>;
  \<^item> \<open>NullStart\<close>: the property is present and \<^verbatim>\<open>null\<close>; \<^verbatim>\<open>new Date(null)\<close>
    converts \<^verbatim>\<open>null\<close> to the number 0, which is the epoch, 1 January 1970;
  \<^item> \<open>Malformed\<close>: any other value that \<^verbatim>\<open>Date\<close> cannot read (text that does not
    parse, the empty string), an invalid date again;
  \<^item> \<open>Instant t\<close>: any other value that \<^verbatim>\<open>Date\<close> reads as the instant \<open>t\<close>, in epoch
    milliseconds (date text that parses, a number).
\<close>

datatype start_time = Missing | NullStart | Malformed | Instant int

fun getTime :: "start_time \<Rightarrow> jsnum" where
  "getTime (Instant t) = Num t"
| "getTime NullStart = Num 0"
| "getTime Missing = NaN"
| "getTime Malformed = NaN"

record period =
  start :: start_time

text \<open>
  The optional chains \<^verbatim>\<open>type?.[0]?.coding?.[0]?.display\<close>, \<^verbatim>\<open>type?.[0]?.text\<close>
  and \<^verbatim>\<open>location?.[0]?.location?.display\<close> never raise; each is kept as the string it
  yields, \<open>None\<close> for \<^verbatim>\<open>undefined\<close>. \<^verbatim>\<open>resource.period\<close> is read without a guard.
\<close>

record encounter =
  period :: "period option"
  type_coding_display :: "string option"
  type_text :: "string option"
  location_display :: "string option"

text \<open>
  An entry of the bundle. \<open>None\<close> stands for an entry without a \<^verbatim>\<open>resource\<close> and for
  a \<^verbatim>\<open>null\<close> entry alike: in both, the next property read raises.
\<close>

record bundle_entry =
  resource :: "encounter option"

record search_bundle =
  entry :: "bundle_entry list option"

subsection \<open>Catalog, prices and the bill payload\<close>

record payment_mode =
  pm_uuid :: string

record service_price =
  sp_uuid :: string
  sp_name :: string
  sp_price :: string
  paymentMode :: "payment_mode option"

record billable_service =
  bs_uuid :: string
  bs_name :: string
  servicePrices :: "service_price list"

record cash_point =
  cp_uuid :: string

record attribute =
  attributeType :: string
  attr_value :: string

record line_item =
  billableService :: string
  quantity :: int
  price :: string
  priceName :: string
  priceUuid :: string
  lineItemOrder :: int
  paymentStatus :: string

text \<open>The payload's \<^verbatim>\<open>payments\<close> is the empty array in every revision; its elements have no shape here.\<close>

type_synonym payment = unit

record bill_payload =
  lineItems :: "line_item list"
  cashPoint :: string
  patient :: string
  status :: string
  payments :: "payment list"

definition PENDING_PAYMENT_STATUS :: string where
  "PENDING_PAYMENT_STATUS = ''PENDING''"

section \<open>Visit History Evaluator\<close>

text \<open>
  Both revisions compute
  \<^verbatim>\<open>Math.ceil(Math.abs(today.getTime() - visitDate.getTime()) / (1000 * 60 * 60 * 24))\<close>.
  \<open>today\<close> is the clock reading \<^verbatim>\<open>new Date().getTime()\<close>. Times are whole
  milliseconds, on which the subtraction is exact; the quotient of a difference of less
  than \<open>2 ^ 26\<close> days is a whole number in double precision only when it is one
  exactly, so \<^verbatim>\<open>Math.ceil\<close> yields the ceiling of the exact quotient.
\<close>

fun diffDays :: "int \<Rightarrow> jsnum \<Rightarrow> jsnum" where
  "diffDays today NaN = NaN"
| "diffDays today (Num t) =
     (let diffTime = \<bar>today - t\<bar>
      in Num \<lceil>real_of_int diffTime / (1000 * 60 * 60 * 24)\<rceil>)"

text \<open>
  \<^verbatim>\<open>isWaived\<close> of the waiver revision (lines 24-33). \<^verbatim>\<open>!visitData?.entry?.length\<close>
  holds for an absent bundle, an absent \<^verbatim>\<open>entry\<close> and an empty array.
\<close>

definition isWaived :: "search_bundle option \<Rightarrow> int \<Rightarrow> error + bool" where
  "isWaived visitData today =
     (case visitData of
        None \<Rightarrow> Inr False
      | Some b \<Rightarrow>
          (case entry b of
             None \<Rightarrow> Inr False
           | Some [] \<Rightarrow> Inr False
           | Some (e # _) \<Rightarrow>
               (case resource e of
                  None \<Rightarrow> Inl TypeError
                | Some r \<Rightarrow>
                    (case period r of
                       None \<Rightarrow> Inl TypeError
                     | Some p \<Rightarrow> Inr (js_le (diffDays today (getTime (start p))) 7)))))"

text \<open>
  \<^verbatim>\<open>a || b\<close> and \<^verbatim>\<open>a || ''\<close> on strings that may be \<^verbatim>\<open>undefined\<close>: the empty
  string is falsy.
\<close>

fun str_or :: "string option \<Rightarrow> string option \<Rightarrow> string option" where
  "str_or (Some s) b = (if s \<noteq> [] then Some s else b)"
| "str_or None b = b"

fun or_empty :: "string option \<Rightarrow> string" where
  "or_empty (Some s) = (if s \<noteq> [] then s else [])"
| "or_empty None = []"

record last_visit_info =
  lv_diffDays :: jsnum
  lv_type :: string
  lv_location :: string
  dateFormatted :: string

text \<open>
  \<^verbatim>\<open>lastVisitInfo\<close> of the non-paying revision (lines 26-44); \<open>None\<close> is its
  \<^verbatim>\<open>null\<close>. \<open>format\<close> stands for \<^verbatim>\<open>dayjs(visitDate).format('DD MM YYYY')\<close>, a
  library call on the instant read from \<^verbatim>\<open>period.start\<close>.
\<close>

definition lastVisitInfo ::
  "(jsnum \<Rightarrow> string) \<Rightarrow> search_bundle option \<Rightarrow> int \<Rightarrow> error + last_visit_info option" where
  "lastVisitInfo format visitData today =
     (case visitData of
        None \<Rightarrow> Inr None
      | Some b \<Rightarrow>
          (case entry b of
             None \<Rightarrow> Inr None
           | Some [] \<Rightarrow> Inr None
           | Some (e # _) \<Rightarrow>
               (case resource e of
                  None \<Rightarrow> Inl TypeError
                | Some r \<Rightarrow>
                    (case period r of
                       None \<Rightarrow> Inl TypeError
                     | Some p \<Rightarrow>
                         (let visitDate = getTime (start p);
                              tp = str_or (type_coding_display r) (type_text r);
                              location = location_display r
                          in Inr (Some \<lparr>lv_diffDays = diffDays today visitDate,
                                lv_type = or_empty tp,
                                lv_location = or_empty location,
                                dateFormatted = format visitDate\<rparr>))))))"

section \<open>Category Classifier\<close>

text \<open>
  \<^verbatim>\<open>isNonPaying\<close> (part_000, lines 58-61). The first argument is
  \<^verbatim>\<open>categoryConcepts?.nonPayingDetails\<close>, \<open>None\<close> when the configuration lacks it.
\<close>

definition isNonPaying :: "string option \<Rightarrow> attribute list \<Rightarrow> bool" where
  "isNonPaying nonPayingDetails attrs =
     (case nonPayingDetails of
        None \<Rightarrow> False
      | Some c \<Rightarrow>
          (if c = [] \<or> attrs = [] then False
           else list_ex (\<lambda>attr. attr_value attr = c) attrs))"

section \<open>Service Catalog Filter\<close>

text \<open>\<^verbatim>\<open>p.paymentMode?.uuid\<close>\<close>

definition mode_uuid :: "service_price \<Rightarrow> jsstr" where
  "mode_uuid p = (case paymentMode p of None \<Rightarrow> Undefined | Some m \<Rightarrow> Str (pm_uuid m))"

text \<open>
  \<^verbatim>\<open>lineList\<close> of the non-paying revision (part_000, lines 63-68). The catalog is
  \<^verbatim>\<open>lineItems\<close> of \<^verbatim>\<open>useBillableItems()\<close>, \<open>None\<close> while it is \<^verbatim>\<open>undefined\<close>.
\<close>

definition lineList :: "billable_service list option \<Rightarrow> jsstr \<Rightarrow> bool \<Rightarrow> billable_service list" where
  "lineList catalog pm nonPaying =
     (if nonPaying then []
      else if \<not> truthy pm \<or> (case catalog of None \<Rightarrow> True | Some xs \<Rightarrow> xs = []) then []
      else (case catalog of
              None \<Rightarrow> []
            | Some xs \<Rightarrow> filter (\<lambda>e. list_ex (\<lambda>p. mode_uuid p = pm) (servicePrices e)) xs))"

text \<open>
  \<^verbatim>\<open>lineList\<close> of the waiver revision (lines 39 and 105-110): no non-paying flag, and
  \<^verbatim>\<open>p.paymentMode && p.paymentMode.uuid === paymentMethod\<close> as the test. The catalog
  is read without a guard, after the early return that waits for it to load.
\<close>

definition lineListW :: "billable_service list \<Rightarrow> jsstr \<Rightarrow> billable_service list" where
  "lineListW catalog pm =
     (if truthy pm
      then filter (\<lambda>e. list_ex (\<lambda>p. case paymentMode p of None \<Rightarrow> False
                                      | Some m \<Rightarrow> Str (pm_uuid m) = pm) (servicePrices e)) catalog
      else [])"

section \<open>Price Resolver\<close>

text \<open>
  The expression both revisions evaluate:
  \<^verbatim>\<open>servicePrices.find((p) => p.paymentMode?.uuid === paymentMethod) || servicePrices[0]\<close>.
  A price found is an object, hence truthy; \<open>None\<close> is \<^verbatim>\<open>undefined\<close>.
\<close>

definition priceForPaymentMode :: "service_price list \<Rightarrow> jsstr \<Rightarrow> service_price option" where
  "priceForPaymentMode prices pm =
     (case find (\<lambda>p. mode_uuid p = pm) prices of
        Some p \<Rightarrow> Some p
      | None \<Rightarrow> (case prices of [] \<Rightarrow> None | p # _ \<Rightarrow> Some p))"

section \<open>Bill Payload Builder\<close>

text \<open>\<^verbatim>\<open>cashPoints?.[0]?.uuid ?? ''\<close>\<close>

definition cashPointUuid :: "cash_point list option \<Rightarrow> string" where
  "cashPointUuid cps = (case cps of None \<Rightarrow> [] | Some [] \<Rightarrow> [] | Some (c # _) \<Rightarrow> cp_uuid c)"

text \<open>
  The object \<^verbatim>\<open>createBillPayload\<close> of the non-paying revision (part_000, lines
  104-127). \<^verbatim>\<open>selectedItem.servicePrices\<close> is read without a guard, so a
  \<^verbatim>\<open>null\<close> selection raises.
\<close>

definition createBillPayload ::
  "cash_point list option \<Rightarrow> string \<Rightarrow> jsstr \<Rightarrow> billable_service option \<Rightarrow> error + bill_payload" where
  "createBillPayload cps patientId pm selectedItem =
     (case selectedItem of
        None \<Rightarrow> Inl TypeError
      | Some item \<Rightarrow>
          (let pfp = priceForPaymentMode (servicePrices item) pm
           in Inr \<lparr>lineItems =
                     [\<lparr>billableService = bs_uuid item,
                       quantity = 1,
                       price = (case pfp of Some p \<Rightarrow> sp_price p | None \<Rightarrow> ''0.000''),
                       priceName = ''Default'',
                       priceUuid = (case pfp of Some p \<Rightarrow> sp_uuid p | None \<Rightarrow> []),
                       lineItemOrder = 0,
                       paymentStatus = PENDING_PAYMENT_STATUS\<rparr>],
                   cashPoint = cashPointUuid cps,
                   patient = patientId,
                   status = PENDING_PAYMENT_STATUS,
                   payments = []\<rparr>))"

text \<open>
  The object \<^verbatim>\<open>createBillPayload\<close> of the waiver revision (lines 62-86):
  \<^verbatim>\<open>price: isWaived ? '0.000' : priceForPaymentMode ? priceForPaymentMode.price : '0.00'\<close>.
\<close>

definition createBillPayloadW ::
  "cash_point list option \<Rightarrow> string \<Rightarrow> bool \<Rightarrow> jsstr \<Rightarrow> billable_service option
     \<Rightarrow> error + bill_payload" where
  "createBillPayloadW cps patientId waived pm selectedItem =
     (case selectedItem of
        None \<Rightarrow> Inl TypeError
      | Some item \<Rightarrow>
          (let pfp = priceForPaymentMode (servicePrices item) pm
           in Inr \<lparr>lineItems =
                     [\<lparr>billableService = bs_uuid item,
                       quantity = 1,
                       price = (if waived then ''0.000''
                                else case pfp of Some p \<Rightarrow> sp_price p | None \<Rightarrow> ''0.00''),
                       priceName = ''Default'',
                       priceUuid = (case pfp of Some p \<Rightarrow> sp_uuid p | None \<Rightarrow> []),
                       lineItemOrder = 0,
                       paymentStatus = PENDING_PAYMENT_STATUS\<rparr>],
                   cashPoint = cashPointUuid cps,
                   patient = patientId,
                   status = PENDING_PAYMENT_STATUS,
                   payments = []\<rparr>))"

section \<open>The form's state and its handlers\<close>

text \<open>
  What \<^verbatim>\<open>setExtraVisitInfo\<close> hands to the surrounding form. The commit callback is
  the thunk \<^verbatim>\<open>() => handleCreateExtraVisitInfo(createBillPayload)\<close>, kept as the payload
  it closes over; \<open>None\<close> is \<^verbatim>\<open>null\<close>.
\<close>

record extra_visit_info =
  evi_createBillPayload :: "bill_payload option"
  evi_handleCreateExtraVisitInfo :: "bill_payload option"
  evi_attributes :: "attribute list"

text \<open>A \<^verbatim>\<open>showSnackbar\<close> call, with the default texts of the translation keys.\<close>

record snackbar =
  title :: string
  subtitle :: string
  kind :: string

text \<open>
  The component's \<^verbatim>\<open>useState\<close> cells, the value last passed to
  \<^verbatim>\<open>setExtraVisitInfo\<close>, and the snackbars shown so far.
\<close>

record form_state =
  attributes :: "attribute list"
  paymentMethod :: jsstr
  selectedBillableItem :: "billable_service option"
  extraVisitInfo :: extra_visit_info
  snackbars :: "snackbar list"

text \<open>What the hooks and props supply and a session does not change.\<close>

record config =
  patientUuid :: string
  cashPoints :: "cash_point list option"
  catalog :: "billable_service list option"
  nonPayingDetails :: "string option"

text \<open>
  \<^verbatim>\<open>handleBillingService\<close> of the waiver revision (lines 61-93): the value it passes to
  \<^verbatim>\<open>setExtraVisitInfo\<close>.
\<close>

definition handleBillingServiceW ::
  "cash_point list option \<Rightarrow> string \<Rightarrow> bool \<Rightarrow> attribute list \<Rightarrow> jsstr
     \<Rightarrow> billable_service option \<Rightarrow> error + extra_visit_info" where
  "handleBillingServiceW cps patientId waived attrs pm selectedItem =
     (case createBillPayloadW cps patientId waived pm selectedItem of
        Inl e \<Rightarrow> Inl e
      | Inr payload \<Rightarrow>
          Inr \<lparr>evi_createBillPayload = Some payload,
               evi_handleCreateExtraVisitInfo = Some payload,
               evi_attributes = attrs\<rparr>)"

text \<open>
  \<^verbatim>\<open>handleBillingService\<close> of the non-paying revision (part_000, lines 100-135). An
  exception is reported alone: the state it leaves behind is not represented.
\<close>

definition handleBillingService ::
  "config \<Rightarrow> form_state \<Rightarrow> billable_service option \<Rightarrow> error + form_state" where
  "handleBillingService cfg st selectedItem =
     (case createBillPayload (cashPoints cfg) (patientUuid cfg) (paymentMethod st) selectedItem of
        Inl e \<Rightarrow> Inl e
      | Inr payload \<Rightarrow>
          Inr (st\<lparr>selectedBillableItem := selectedItem,
                  extraVisitInfo :=
                    \<lparr>evi_createBillPayload = Some payload,
                     evi_handleCreateExtraVisitInfo = Some payload,
                     evi_attributes = attributes st\<rparr>\<rparr>))"

text \<open>
  \<^verbatim>\<open>handleCreateExtraVisitInfo\<close> (both revisions): \<^verbatim>\<open>try\<close> the request, show one
  snackbar in either branch. \<open>createPatientBill\<close> is the request of
  \<^verbatim>\<open>billing-form.resource\<close>; \<open>Inl\<close> is a rejected promise. The result is the
  promise the async function returns.
\<close>

definition handleCreateExtraVisitInfo ::
  "(bill_payload \<Rightarrow> 'e + 'r) \<Rightarrow> bill_payload \<Rightarrow> form_state \<Rightarrow> 'e + form_state" where
  "handleCreateExtraVisitInfo createPatientBill payload st =
     (case createPatientBill payload of
        Inr _ \<Rightarrow>
          Inr (st\<lparr>snackbars := snackbars st @
                 [\<lparr>title = ''Patient bill'', subtitle = ''Bill created successfully'',
                   kind = ''success''\<rparr>]\<rparr>)
      | Inl _ \<Rightarrow>
          Inr (st\<lparr>snackbars := snackbars st @
                 [\<lparr>title = ''Bill creation error'',
                   subtitle = ''An error occurred while creating the bill'',
                   kind = ''error''\<rparr>]\<rparr>))"

section \<open>Draft Lifecycle Controller\<close>

text \<open>
  The reset effect (part_000, lines 70-78). The effect that copies \<^verbatim>\<open>attributes\<close> into
  \<^verbatim>\<open>attributesRef\<close> is declared before it, so \<^verbatim>\<open>attributesRef.current\<close> is the
  attributes of the render being committed.
\<close>

definition reset_effect :: "form_state \<Rightarrow> form_state" where
  "reset_effect st =
     st\<lparr>extraVisitInfo :=
          \<lparr>evi_createBillPayload = None,
           evi_handleCreateExtraVisitInfo = None,
           evi_attributes = attributes st\<rparr>,
        selectedBillableItem := None\<rparr>"

text \<open>
  A render after a state change: the effect runs when a dependency differs from the
  previous render's, \<^verbatim>\<open>[paymentMethod, isNonPaying, setExtraVisitInfo]\<close>, the last one
  a stable prop.
\<close>

definition commit_render :: "config \<Rightarrow> form_state \<Rightarrow> form_state \<Rightarrow> form_state" where
  "commit_render cfg old new =
     (if paymentMethod new \<noteq> paymentMethod old
         \<or> isNonPaying (nonPayingDetails cfg) (attributes new)
             \<noteq> isNonPaying (nonPayingDetails cfg) (attributes old)
      then reset_effect new else new)"

text \<open>What the dropdown offers in a state: \<^verbatim>\<open>items={lineList}\<close>.\<close>

definition offered :: "config \<Rightarrow> form_state \<Rightarrow> billable_service list" where
  "offered cfg st =
     lineList (catalog cfg) (paymentMethod st) (isNonPaying (nonPayingDetails cfg) (attributes st))"

text \<open>
  The events of a session: the sub-form's two setters, a choice in the dropdown, and the
  surrounding form calling the commit callback (with the request's outcome).
\<close>

datatype event =
    SetPaymentMethod jsstr
  | SetAttributes "attribute list"
  | SelectService billable_service
  | CommitBill bool

text \<open>
  One event and the render that follows it. The dropdown offers the items of
  \<^verbatim>\<open>lineList\<close> and nothing else; the commit callback exists only while a draft is
  staged.
\<close>

definition step :: "config \<Rightarrow> form_state \<Rightarrow> event \<Rightarrow> form_state" where
  "step cfg st ev =
     (case ev of
        SetPaymentMethod pm \<Rightarrow> commit_render cfg st (st\<lparr>paymentMethod := pm\<rparr>)
      | SetAttributes attrs \<Rightarrow> commit_render cfg st (st\<lparr>attributes := attrs\<rparr>)
      | SelectService item \<Rightarrow>
          (if item \<in> set (offered cfg st)
           then (case handleBillingService cfg st (Some item) of
                   Inr st' \<Rightarrow> st' | Inl _ \<Rightarrow> st)
           else st)
      | CommitBill ok \<Rightarrow>
          (case evi_handleCreateExtraVisitInfo (extraVisitInfo st) of
             None \<Rightarrow> st
           | Some payload \<Rightarrow>
               (case handleCreateExtraVisitInfo
                       (\<lambda>_. if ok then Inr () else Inl ()) payload st of
                  Inr st' \<Rightarrow> st' | Inl _ \<Rightarrow> st)))"

text \<open>The state once the component has mounted: the effect has run on the first render.\<close>

definition mounted :: form_state where
  "mounted =
     reset_effect \<lparr>attributes = [], paymentMethod = Null, selectedBillableItem = None,
        extraVisitInfo = \<lparr>evi_createBillPayload = None,
          evi_handleCreateExtraVisitInfo = None, evi_attributes = []\<rparr>,
        snackbars = []\<rparr>"

fun run :: "config \<Rightarrow> form_state \<Rightarrow> event list \<Rightarrow> form_state" where
  "run cfg st [] = st"
| "run cfg st (ev # evs) = run cfg (step cfg st ev) evs"

text \<open>The two states of the lifecycle: \<open>Drafted\<close> when a payload is staged, \<open>Empty\<close> otherwise.\<close>

definition drafted :: "form_state \<Rightarrow> bool" where
  "drafted st = (evi_createBillPayload (extraVisitInfo st) \<noteq> None)"

text \<open>
  The invariant of the staged draft: a null payload goes with a null callback; a staged
  payload is the callback's, the selected item is one the dropdown offers now, and the
  payload is what the builder yields for that item under the payment mode of now.
\<close>

definition staged_current :: "config \<Rightarrow> form_state \<Rightarrow> bool" where
  "staged_current cfg st =
     (case evi_createBillPayload (extraVisitInfo st) of
        None \<Rightarrow> evi_handleCreateExtraVisitInfo (extraVisitInfo st) = None
      | Some payload \<Rightarrow>
          evi_handleCreateExtraVisitInfo (extraVisitInfo st) = Some payload
          \<and> (case selectedBillableItem st of
                None \<Rightarrow> False
              | Some item \<Rightarrow>
                  item \<in> set (offered cfg st)
                  \<and> createBillPayload (cashPoints cfg) (patientUuid cfg) (paymentMethod st)
                        (Some item) = Inr payload))"

section \<open>Sample data\<close>

text \<open>A bundle whose only entry is one encounter with the given start, and one without a period.\<close>

definition visit_at :: "start_time \<Rightarrow> search_bundle option" where
  "visit_at s =
     Some \<lparr>entry = Some [\<lparr>resource = Some \<lparr>period = Some \<lparr>start = s\<rparr>,
        type_coding_display = None, type_text = None, location_display = None\<rparr>\<rparr>]\<rparr>"

definition no_period :: "search_bundle option" where
  "no_period =
     Some \<lparr>entry = Some [\<lparr>resource = Some \<lparr>period = None,
        type_coding_display = None, type_text = None, location_display = None\<rparr>\<rparr>]\<rparr>"

text \<open>What \<^verbatim>\<open>dayjs\<close> prints for an invalid date, for inputs whose start is no instant.\<close>

definition invalid_date_text :: "jsnum \<Rightarrow> string" where
  "invalid_date_text t = ''Invalid Date''"

text \<open>
  What \<^verbatim>\<open>dayjs\<close> prints with \<^verbatim>\<open>'DD MM YYYY'\<close>, in a UTC locale, for the two dates of
  the samples: an invalid date and the epoch. Other instants are left unformatted here.
\<close>

definition utc_date_text :: "jsnum \<Rightarrow> string" where
  "utc_date_text t =
     (case t of NaN \<Rightarrow> ''Invalid Date'' | Num n \<Rightarrow> (if n = 0 then ''01 01 1970'' else []))"

text \<open>A catalog: two priced services and one without prices.\<close>

definition consultation :: billable_service where
  "consultation =
     \<lparr>bs_uuid = ''svc-1'', bs_name = ''Consultation'',
      servicePrices =
        [\<lparr>sp_uuid = ''price-nhif'', sp_name = ''NHIF'', sp_price = ''10'',
          paymentMode = Some \<lparr>pm_uuid = ''nhif''\<rparr>\<rparr>,
         \<lparr>sp_uuid = ''price-cash'', sp_name = ''Cash'', sp_price = ''20'',
          paymentMode = Some \<lparr>pm_uuid = ''cash''\<rparr>\<rparr>]\<rparr>"

definition dressing :: billable_service where
  "dressing =
     \<lparr>bs_uuid = ''svc-2'', bs_name = ''Dressing'',
      servicePrices =
        [\<lparr>sp_uuid = ''price-d'', sp_name = ''Cash'', sp_price = ''5.00'',
          paymentMode = Some \<lparr>pm_uuid = ''cash''\<rparr>\<rparr>]\<rparr>"

definition unpriced :: billable_service where
  "unpriced = \<lparr>bs_uuid = ''svc-3'', bs_name = ''Unpriced'', servicePrices = []\<rparr>"

definition clinic :: config where
  "clinic = \<lparr>patientUuid = ''patient-1'', cashPoints = Some [\<lparr>cp_uuid = ''till-1''\<rparr>],
     catalog = Some [consultation, dressing], nonPayingDetails = Some ''exempt''\<rparr>"

definition exempt :: attribute where
  "exempt = \<lparr>attributeType = ''payment-category'', attr_value = ''exempt''\<rparr>"

definition consultation_draft :: bill_payload where
  "consultation_draft =
     \<lparr>lineItems =
        [\<lparr>billableService = ''svc-1'', quantity = 1, price = ''20'', priceName = ''Default'',
          priceUuid = ''price-cash'', lineItemOrder = 0, paymentStatus = ''PENDING''\<rparr>],
      cashPoint = ''till-1'', patient = ''patient-1'', status = ''PENDING'', payments = []\<rparr>"

definition dressing_draft :: bill_payload where
  "dressing_draft =
     \<lparr>lineItems =
        [\<lparr>billableService = ''svc-2'', quantity = 1, price = ''5.00'', priceName = ''Default'',
          priceUuid = ''price-d'', lineItemOrder = 0, paymentStatus = ''PENDING''\<rparr>],
      cashPoint = ''till-1'', patient = ''patient-1'', status = ''PENDING'', payments = []\<rparr>"

text \<open>The session in which cash is chosen and then the consultation is selected.\<close>

definition staged :: form_state where
  "staged = run clinic mounted [SetPaymentMethod (Str ''cash''), SelectService consultation]"

definition success_snackbar :: snackbar where
  "success_snackbar = \<lparr>title = ''Patient bill'', subtitle = ''Bill created successfully'',
     kind = ''success''\<rparr>"

section \<open>Evaluation lemmas\<close>

lemma ceil_days: "\<lceil>real_of_int a / (1000 * 60 * 60 * 24)\<rceil> = - ((- a) div 86400000)"
proof -
  have "real_of_int a / (1000 * 60 * 60 * 24) = of_int a / of_int 86400000"
    by simp
  then show ?thesis
    using ceiling_divide_eq_div [of a 86400000] by simp
qed

lemma diffDays_Num: "diffDays today (Num t) = Num (- ((- \<bar>today - t\<bar>) div 86400000))"
  by (simp only: diffDays.simps Let_def ceil_days)

lemma isWaived_entry:
  "isWaived (Some \<lparr>entry = Some (\<lparr>resource = Some r\<rparr> # es)\<rparr>) today =
     (case period r of None \<Rightarrow> Inl TypeError
      | Some p \<Rightarrow> Inr (js_le (diffDays today (getTime (start p))) 7))"
  by (simp add: isWaived_def)

lemma lastVisitInfo_entry:
  "lastVisitInfo format (Some \<lparr>entry = Some (\<lparr>resource = Some r\<rparr> # es)\<rparr>) today =
     (case period r of
        None \<Rightarrow> Inl TypeError
      | Some p \<Rightarrow>
          Inr (Some \<lparr>lv_diffDays = diffDays today (getTime (start p)),
                lv_type = or_empty (str_or (type_coding_display r) (type_text r)),
                lv_location = or_empty (location_display r),
                dateFormatted = format (getTime (start p))\<rparr>))"
  by (simp add: lastVisitInfo_def Let_def split: option.splits)

lemma mode_uuid_Some [simp]:
  "mode_uuid \<lparr>sp_uuid = u, sp_name = n, sp_price = a, paymentMode = Some \<lparr>pm_uuid = k\<rparr>\<rparr> = Str k"
  by (simp add: mode_uuid_def)

lemma lineList_Some:
  "lineList (Some C) P b =
     (if b \<or> \<not> truthy P then []
      else filter (\<lambda>e. \<exists>p \<in> set (servicePrices e). mode_uuid p = P) C)"
  by (cases C) (simp_all add: lineList_def list_ex_iff)

lemma lineListW_eq: "lineListW C P = lineList (Some C) P False"
proof -
  have "(case paymentMode p of None \<Rightarrow> False | Some m \<Rightarrow> Str (pm_uuid m) = P) = (mode_uuid p = P)"
    if "truthy P" for p
    using that by (cases P) (auto simp: mode_uuid_def split: option.splits)
  then show ?thesis
    by (auto simp: lineListW_def lineList_Some list_ex_iff intro!: filter_cong)
qed

lemma priceForPaymentMode_match:
  assumes "\<exists>q \<in> set prices. mode_uuid q = pm"
  shows "\<exists>p. priceForPaymentMode prices pm = Some p \<and> p \<in> set prices \<and> mode_uuid p = pm"
proof (cases "find (\<lambda>p. mode_uuid p = pm) prices")
  case None
  with assms show ?thesis by (auto simp: find_None_iff)
next
  case (Some p)
  then have "p \<in> set prices \<and> mode_uuid p = pm"
    by (auto simp: find_Some_iff)
  with Some show ?thesis by (simp add: priceForPaymentMode_def)
qed

lemma priceForPaymentMode_fallback:
  assumes "\<forall>q \<in> set (p0 # ps). mode_uuid q \<noteq> pm"
  shows "priceForPaymentMode (p0 # ps) pm = Some p0"
proof -
  have "find (\<lambda>p. mode_uuid p = pm) (p0 # ps) = None"
    using assms by (simp only: find_None_iff) blast
  then show ?thesis by (simp only: priceForPaymentMode_def option.case list.case)
qed

lemma priceForPaymentMode_None: "priceForPaymentMode prices pm = None \<longleftrightarrow> prices = []"
  by (cases prices) (auto simp: priceForPaymentMode_def split: option.splits)

lemma createBillPayload_Some:
  "createBillPayload cps pid pm (Some item) =
     Inr \<lparr>lineItems =
            [\<lparr>billableService = bs_uuid item, quantity = 1,
              price = (case priceForPaymentMode (servicePrices item) pm of
                         Some p \<Rightarrow> sp_price p | None \<Rightarrow> ''0.000''),
              priceName = ''Default'',
              priceUuid = (case priceForPaymentMode (servicePrices item) pm of
                             Some p \<Rightarrow> sp_uuid p | None \<Rightarrow> []),
              lineItemOrder = 0, paymentStatus = ''PENDING''\<rparr>],
          cashPoint = cashPointUuid cps, patient = pid, status = ''PENDING'', payments = []\<rparr>"
  by (simp add: createBillPayload_def PENDING_PAYMENT_STATUS_def Let_def)

lemma createBillPayloadW_Some:
  "createBillPayloadW cps pid waived pm (Some item) =
     Inr \<lparr>lineItems =
            [\<lparr>billableService = bs_uuid item, quantity = 1,
              price = (if waived then ''0.000''
                       else case priceForPaymentMode (servicePrices item) pm of
                              Some p \<Rightarrow> sp_price p | None \<Rightarrow> ''0.00''),
              priceName = ''Default'',
              priceUuid = (case priceForPaymentMode (servicePrices item) pm of
                             Some p \<Rightarrow> sp_uuid p | None \<Rightarrow> []),
              lineItemOrder = 0, paymentStatus = ''PENDING''\<rparr>],
          cashPoint = cashPointUuid cps, patient = pid, status = ''PENDING'', payments = []\<rparr>"
  by (simp add: createBillPayloadW_def PENDING_PAYMENT_STATUS_def Let_def)

lemma createBillPayload_None: "createBillPayload cps pid pm None = Inl TypeError"
  by (simp add: createBillPayload_def)

lemma createBillPayloadW_None: "createBillPayloadW cps pid waived pm None = Inl TypeError"
  by (simp add: createBillPayloadW_def)

lemma handleBillingServiceW_payload:
  "handleBillingServiceW cps pid waived attrs pm sel = Inr info \<longleftrightarrow>
     (\<exists>payload. createBillPayloadW cps pid waived pm sel = Inr payload
        \<and> info = \<lparr>evi_createBillPayload = Some payload,
                   evi_handleCreateExtraVisitInfo = Some payload, evi_attributes = attrs\<rparr>)"
  by (auto simp: handleBillingServiceW_def split: sum.splits)

lemma createBillPayload_projr:
  "createBillPayload cps pid pm (Some item) = Inr (projr (createBillPayload cps pid pm (Some item)))"
  by (simp add: createBillPayload_Some)

lemma handleCreateExtraVisitInfo_cases:
  "handleCreateExtraVisitInfo cpb payload st =
     Inr (st\<lparr>snackbars := snackbars st @
        [if isl (cpb payload)
         then \<lparr>title = ''Bill creation error'',
                subtitle = ''An error occurred while creating the bill'', kind = ''error''\<rparr>
         else \<lparr>title = ''Patient bill'', subtitle = ''Bill created successfully'',
                kind = ''success''\<rparr>]\<rparr>)"
  by (cases "cpb payload") (simp_all add: handleCreateExtraVisitInfo_def)

subsection \<open>The steps of the lifecycle\<close>

lemma reset_effect_empty:
  "evi_createBillPayload (extraVisitInfo (reset_effect st)) = None"
  "evi_handleCreateExtraVisitInfo (extraVisitInfo (reset_effect st)) = None"
  "selectedBillableItem (reset_effect st) = None"
  "paymentMethod (reset_effect st) = paymentMethod st"
  "attributes (reset_effect st) = attributes st"
  by (simp_all add: reset_effect_def)

lemma step_SetPaymentMethod:
  "step cfg st (SetPaymentMethod pm) =
     (if pm \<noteq> paymentMethod st then reset_effect (st\<lparr>paymentMethod := pm\<rparr>) else st)"
  by (simp add: step_def commit_render_def)

lemma step_SetAttributes:
  "step cfg st (SetAttributes attrs) =
     (if isNonPaying (nonPayingDetails cfg) attrs \<noteq> isNonPaying (nonPayingDetails cfg) (attributes st)
      then reset_effect (st\<lparr>attributes := attrs\<rparr>) else st\<lparr>attributes := attrs\<rparr>)"
  by (simp add: step_def commit_render_def)

lemma step_SelectService:
  "step cfg st (SelectService item) =
     (if item \<in> set (offered cfg st)
      then st\<lparr>selectedBillableItem := Some item,
              extraVisitInfo :=
                \<lparr>evi_createBillPayload =
                    Some (projr (createBillPayload (cashPoints cfg) (patientUuid cfg)
                                  (paymentMethod st) (Some item))),
                 evi_handleCreateExtraVisitInfo =
                    Some (projr (createBillPayload (cashPoints cfg) (patientUuid cfg)
                                  (paymentMethod st) (Some item))),
                 evi_attributes = attributes st\<rparr>\<rparr>
      else st)"
  by (simp add: step_def handleBillingService_def createBillPayload_Some)

lemma step_CommitBill:
  "step cfg st (CommitBill ok) =
     (case evi_handleCreateExtraVisitInfo (extraVisitInfo st) of
        None \<Rightarrow> st
      | Some payload \<Rightarrow>
          st\<lparr>snackbars := snackbars st @
            [if ok then \<lparr>title = ''Patient bill'', subtitle = ''Bill created successfully'',
                          kind = ''success''\<rparr>
             else \<lparr>title = ''Bill creation error'',
                    subtitle = ''An error occurred while creating the bill'', kind = ''error''\<rparr>]\<rparr>)"
  by (simp add: step_def handleCreateExtraVisitInfo_cases split: option.splits)

lemma step_pm_change_empties:
  "pm \<noteq> paymentMethod st \<Longrightarrow>
     evi_createBillPayload (extraVisitInfo (step cfg st (SetPaymentMethod pm))) = None
     \<and> evi_handleCreateExtraVisitInfo (extraVisitInfo (step cfg st (SetPaymentMethod pm))) = None"
  by (simp add: step_SetPaymentMethod reset_effect_empty)

lemma step_category_change_empties:
  "isNonPaying (nonPayingDetails cfg) attrs \<noteq> isNonPaying (nonPayingDetails cfg) (attributes st) \<Longrightarrow>
     evi_createBillPayload (extraVisitInfo (step cfg st (SetAttributes attrs))) = None
     \<and> evi_handleCreateExtraVisitInfo (extraVisitInfo (step cfg st (SetAttributes attrs))) = None"
  by (simp add: step_SetAttributes reset_effect_empty)

lemma offered_paying:
  "item \<in> set (offered cfg st) \<Longrightarrow>
     \<not> isNonPaying (nonPayingDetails cfg) (attributes st) \<and> truthy (paymentMethod st)"
  by (auto simp: offered_def lineList_def split: if_splits)

lemma staged_current_mounted: "staged_current cfg mounted"
  by (simp add: staged_current_def mounted_def reset_effect_def)

lemma staged_current_step:
  assumes "staged_current cfg st"
  shows "staged_current cfg (step cfg st ev)"
proof (cases ev)
  case (SetPaymentMethod pm)
  with assms show ?thesis
    by (simp add: step_SetPaymentMethod staged_current_def reset_effect_empty)
next
  case (SetAttributes attrs)
  with assms show ?thesis
    by (simp add: step_SetAttributes staged_current_def reset_effect_empty offered_def
        split: option.splits)
next
  case (SelectService item)
  with assms show ?thesis
    using createBillPayload_projr [of "cashPoints cfg" "patientUuid cfg" "paymentMethod st" item]
    by (simp add: step_SelectService staged_current_def offered_def)
next
  case (CommitBill ok)
  with assms show ?thesis
    by (simp add: step_CommitBill staged_current_def offered_def split: option.splits)
qed

lemma staged_current_run:
  "staged_current cfg st \<Longrightarrow> staged_current cfg (run cfg st evs)"
  by (induction evs arbitrary: st) (simp_all add: staged_current_step)

subsection \<open>The sample session\<close>

lemmas eval_defs = step_def commit_render_def reset_effect_def mounted_def handleBillingService_def
  createBillPayload_Some offered_def lineList_def isNonPaying_def priceForPaymentMode_def
  cashPointUuid_def clinic_def consultation_def dressing_def

lemma staged_eq:
  "staged =
     \<lparr>attributes = [], paymentMethod = Str ''cash'', selectedBillableItem = Some consultation,
      extraVisitInfo = \<lparr>evi_createBillPayload = Some consultation_draft,
        evi_handleCreateExtraVisitInfo = Some consultation_draft, evi_attributes = []\<rparr>,
      snackbars = []\<rparr>"
  by (simp add: staged_def eval_defs consultation_draft_def)

lemma step_staged_dressing:
  "step clinic staged (SelectService dressing) =
     \<lparr>attributes = [], paymentMethod = Str ''cash'', selectedBillableItem = Some dressing,
      extraVisitInfo = \<lparr>evi_createBillPayload = Some dressing_draft,
        evi_handleCreateExtraVisitInfo = Some dressing_draft, evi_attributes = []\<rparr>,
      snackbars = []\<rparr>"
  by (simp add: staged_eq eval_defs dressing_draft_def)

lemma drafts_differ: "consultation_draft \<noteq> dressing_draft"
  by (simp add: consultation_draft_def dressing_draft_def)

lemma staged_category_change:
  "isNonPaying (nonPayingDetails clinic) [exempt]
     \<noteq> isNonPaying (nonPayingDetails clinic) (attributes staged)"
  by (simp add: isNonPaying_def clinic_def exempt_def staged_eq)

section \<open>The claims\<close>

text \<open>
  C1. In the waiver revision, the flag \<^verbatim>\<open>isWaived\<close> of a visit whose start is the
  instant \<open>t\<close> is \<open>\<lceil>|today - t| / one day\<rceil> \<le> 7\<close>: the ceiling of the absolute
  difference, with no flooring at zero. So the flag is true whenever the start lies
  within \<open>7 * 24\<close> hours of the clock reading, and false for a start exactly seven days
  and one second before it.
\<close>

theorem isWaived_within_seven_days:
  assumes "period r = Some p" and "start p = Instant t"
  shows "isWaived (Some \<lparr>entry = Some (\<lparr>resource = Some r\<rparr> # es)\<rparr>) today =
           Inr (\<lceil>real_of_int \<bar>today - t\<bar> / (1000 * 60 * 60 * 24)\<rceil> \<le> 7)
       \<and> (\<bar>today - t\<bar> \<le> 7 * 24 * 60 * 60 * 1000 \<longrightarrow>
           isWaived (Some \<lparr>entry = Some (\<lparr>resource = Some r\<rparr> # es)\<rparr>) today = Inr True)
       \<and> (today - t = 7 * 24 * 60 * 60 * 1000 + 1000 \<longrightarrow>
           isWaived (Some \<lparr>entry = Some (\<lparr>resource = Some r\<rparr> # es)\<rparr>) today = Inr False)"
proof -
  let ?v = "Some \<lparr>entry = Some (\<lparr>resource = Some r\<rparr> # es)\<rparr>"
  have w: "isWaived ?v today = Inr (- ((- \<bar>today - t\<bar>) div 86400000) \<le> 7)"
    using assms by (simp add: isWaived_entry diffDays_Num del: diffDays.simps)
  have formula: "isWaived ?v today =
      Inr (\<lceil>real_of_int \<bar>today - t\<bar> / (1000 * 60 * 60 * 24)\<rceil> \<le> 7)"
    using w by (simp only: ceil_days)
  have within: "isWaived ?v today = Inr True" if "\<bar>today - t\<bar> \<le> 7 * 24 * 60 * 60 * 1000"
  proof -
    have "- ((- \<bar>today - t\<bar>) div 86400000) \<le> 7"
      using that by linarith
    then show ?thesis using w by simp
  qed
  have beyond: "isWaived ?v today = Inr False" if "today - t = 7 * 24 * 60 * 60 * 1000 + 1000"
  proof -
    have "\<bar>today - t\<bar> = 604801000" using that by simp
    then have "- ((- \<bar>today - t\<bar>) div 86400000) = 8" by simp
    then show ?thesis using w by simp
  qed
  from formula within beyond show ?thesis by blast
qed

text \<open>
  Witness for C1: with the clock at seven days and one second, a visit that started at
  second one is waived and a visit that started at zero is not.
\<close>

theorem isWaived_within_seven_days_witness:
  "isWaived (visit_at (Instant 1000)) 604801000 = Inr True
   \<and> isWaived (visit_at (Instant 0)) 604801000 = Inr False"
proof -
  let ?r = "\<lambda>s. \<lparr>period = Some \<lparr>start = s\<rparr>, type_coding_display = None,
     type_text = None, location_display = None\<rparr>"
  have a: "isWaived (Some \<lparr>entry = Some (\<lparr>resource = Some (?r (Instant 1000))\<rparr> # [])\<rparr>)
      604801000 = Inr True"
    using isWaived_within_seven_days
      [of "?r (Instant 1000)" "\<lparr>start = Instant 1000\<rparr>" 1000 "[]" 604801000]
    by simp
  have b: "isWaived (Some \<lparr>entry = Some (\<lparr>resource = Some (?r (Instant 0))\<rparr> # [])\<rparr>)
      604801000 = Inr False"
    using isWaived_within_seven_days
      [of "?r (Instant 0)" "\<lparr>start = Instant 0\<rparr>" 0 "[]" 604801000]
    by simp
  from a b show ?thesis by (simp add: visit_at_def)
qed

text \<open>
  C2. The Service Catalog Filter \<^verbatim>\<open>lineList\<close> returns the empty list when the
  non-paying flag is set or the payment mode is unset (falsy in JavaScript:
  \<^verbatim>\<open>null\<close>, \<^verbatim>\<open>undefined\<close> or the empty string); otherwise it returns exactly the
  services of the catalog that have a price whose payment-mode uuid is the selected one,
  in catalog order. A service in the result has a price, so one with no prices is never
  in it. An undefined catalog gives the empty list, and the waiver revision's list is
  the same filter with no non-paying flag.
\<close>

theorem lineList_stable_filter:
  "lineList (Some C) P b =
     (if b \<or> \<not> truthy P then []
      else filter (\<lambda>e. \<exists>p \<in> set (servicePrices e). mode_uuid p = P) C)
   \<and> (\<forall>e \<in> set (lineList (Some C) P b). servicePrices e \<noteq> [])
   \<and> lineList None P b = []
   \<and> lineListW C P = lineList (Some C) P False"
proof -
  have "servicePrices e \<noteq> []" if "e \<in> set (lineList (Some C) P b)" for e
    using that by (auto simp: lineList_Some split: if_splits)
  moreover have "lineList None P b = []"
    by (simp add: lineList_def)
  ultimately show ?thesis
    using lineList_Some [of C P b] lineListW_eq [of C P] by blast
qed

text \<open>
  Witness for C2: the filter keeps order and duplicates, drops the service without
  prices, and is empty for a non-paying encounter or an unset payment mode.
\<close>

theorem lineList_stable_filter_witness:
  "lineList (Some [unpriced, dressing, consultation, dressing]) (Str ''cash'') False
     = [dressing, consultation, dressing]
   \<and> lineList (Some [unpriced, dressing, consultation]) (Str ''nhif'') False = [consultation]
   \<and> lineList (Some [consultation]) (Str ''cash'') True = []
   \<and> lineList (Some [consultation]) Null False = []"
  using lineList_stable_filter [of "[unpriced, dressing, consultation, dressing]" "Str ''cash''" False]
    lineList_stable_filter [of "[unpriced, dressing, consultation]" "Str ''nhif''" False]
    lineList_stable_filter [of "[consultation]" "Str ''cash''" True]
    lineList_stable_filter [of "[consultation]" Null False]
  by (simp add: unpriced_def dressing_def consultation_def)

text \<open>
  Counterexample for C3: in the waiver revision a service with no prices, for a visit
  that is not waived, gets the amount \<open>0.00\<close>, not \<open>0.000\<close>.
\<close>

theorem createBillPayloadW_unpriced_counterexample:
  "createBillPayloadW None ''patient-1'' False (Str ''cash'') (Some unpriced) =
     Inr \<lparr>lineItems =
            [\<lparr>billableService = ''svc-3'', quantity = 1, price = ''0.00'',
              priceName = ''Default'', priceUuid = [], lineItemOrder = 0,
              paymentStatus = ''PENDING''\<rparr>],
          cashPoint = [], patient = ''patient-1'', status = ''PENDING'', payments = []\<rparr>"
  by (simp add: createBillPayloadW_Some unpriced_def priceForPaymentMode_def cashPointUuid_def)

text \<open>
  C3, amended. For every selected service and payment mode the Price Resolver raises no
  error in either revision. If the service has a price whose payment-mode uuid is the
  selected mode, it returns such a price of the service; if none matches, it returns the
  first price of the sequence; it returns no price exactly when the service has no
  prices. The line item carries the resolved price's uuid, or the empty string when
  there is none. Its amount is the resolved price's, with \<open>0.000\<close> for no price, in the
  non-paying revision; in the waiver revision it is \<open>0.000\<close> for a waived visit, and
  otherwise the resolved price's, with \<open>0.00\<close> for no price.
\<close>

theorem priceForPaymentMode_resolution:
  "((\<exists>q \<in> set (servicePrices item). mode_uuid q = pm) \<longrightarrow>
      (\<exists>p. priceForPaymentMode (servicePrices item) pm = Some p
           \<and> p \<in> set (servicePrices item) \<and> mode_uuid p = pm))
   \<and> (\<forall>p0 ps. servicePrices item = p0 # ps \<and> (\<forall>q \<in> set (p0 # ps). mode_uuid q \<noteq> pm) \<longrightarrow>
        priceForPaymentMode (servicePrices item) pm = Some p0)
   \<and> (priceForPaymentMode (servicePrices item) pm = None \<longleftrightarrow> servicePrices item = [])
   \<and> (\<exists>payload. createBillPayload cps pid pm (Some item) = Inr payload
        \<and> map price (lineItems payload) =
            [case priceForPaymentMode (servicePrices item) pm of
               Some p \<Rightarrow> sp_price p | None \<Rightarrow> ''0.000'']
        \<and> map priceUuid (lineItems payload) =
            [case priceForPaymentMode (servicePrices item) pm of
               Some p \<Rightarrow> sp_uuid p | None \<Rightarrow> []])
   \<and> (\<exists>payload. createBillPayloadW cps pid waived pm (Some item) = Inr payload
        \<and> map price (lineItems payload) =
            [if waived then ''0.000''
             else case priceForPaymentMode (servicePrices item) pm of
                    Some p \<Rightarrow> sp_price p | None \<Rightarrow> ''0.00'']
        \<and> map priceUuid (lineItems payload) =
            [case priceForPaymentMode (servicePrices item) pm of
               Some p \<Rightarrow> sp_uuid p | None \<Rightarrow> []])"
proof -
  let ?resolved = "priceForPaymentMode (servicePrices item) pm"
  have a: "(\<exists>q \<in> set (servicePrices item). mode_uuid q = pm) \<longrightarrow>
        (\<exists>p. ?resolved = Some p \<and> p \<in> set (servicePrices item) \<and> mode_uuid p = pm)"
    using priceForPaymentMode_match by blast
  have b: "\<forall>p0 ps. servicePrices item = p0 # ps \<and> (\<forall>q \<in> set (p0 # ps). mode_uuid q \<noteq> pm) \<longrightarrow>
          ?resolved = Some p0"
    using priceForPaymentMode_fallback by metis
  have c: "?resolved = None \<longleftrightarrow> servicePrices item = []"
    by (rule priceForPaymentMode_None)
  have d: "\<exists>payload. createBillPayload cps pid pm (Some item) = Inr payload
          \<and> map price (lineItems payload) =
              [case ?resolved of Some p \<Rightarrow> sp_price p | None \<Rightarrow> ''0.000'']
          \<and> map priceUuid (lineItems payload) =
              [case ?resolved of Some p \<Rightarrow> sp_uuid p | None \<Rightarrow> []]"
    by (simp add: createBillPayload_Some)
  have e: "\<exists>payload. createBillPayloadW cps pid waived pm (Some item) = Inr payload
          \<and> map price (lineItems payload) =
              [if waived then ''0.000''
               else case ?resolved of Some p \<Rightarrow> sp_price p | None \<Rightarrow> ''0.00'']
          \<and> map priceUuid (lineItems payload) =
              [case ?resolved of Some p \<Rightarrow> sp_uuid p | None \<Rightarrow> []]"
    by (simp add: createBillPayloadW_Some)
  from a b c d e show ?thesis by blast
qed

text \<open>
  Witness for C3: for the consultation, mode \<open>cash\<close> resolves to the cash price, a mode
  with no price of its own resolves to the first price, and the service without prices
  resolves to none.
\<close>

theorem priceForPaymentMode_resolution_witness:
  "priceForPaymentMode (servicePrices consultation) (Str ''cash'') =
     Some \<lparr>sp_uuid = ''price-cash'', sp_name = ''Cash'', sp_price = ''20'',
           paymentMode = Some \<lparr>pm_uuid = ''cash''\<rparr>\<rparr>
   \<and> priceForPaymentMode (servicePrices consultation) (Str ''mpesa'') =
     Some \<lparr>sp_uuid = ''price-nhif'', sp_name = ''NHIF'', sp_price = ''10'',
           paymentMode = Some \<lparr>pm_uuid = ''nhif''\<rparr>\<rparr>
   \<and> priceForPaymentMode (servicePrices unpriced) (Str ''cash'') = None"
proof -
  have a: "\<exists>p. priceForPaymentMode (servicePrices consultation) (Str ''cash'') = Some p
      \<and> p \<in> set (servicePrices consultation) \<and> mode_uuid p = Str ''cash''"
    using priceForPaymentMode_resolution [of consultation "Str ''cash''"]
    by (simp add: consultation_def)
  have b: "priceForPaymentMode (servicePrices consultation) (Str ''mpesa'') =
      Some \<lparr>sp_uuid = ''price-nhif'', sp_name = ''NHIF'', sp_price = ''10'',
           paymentMode = Some \<lparr>pm_uuid = ''nhif''\<rparr>\<rparr>"
    using priceForPaymentMode_resolution [of consultation "Str ''mpesa''"]
    by (simp add: consultation_def)
  have c: "priceForPaymentMode (servicePrices unpriced) (Str ''cash'') = None"
    using priceForPaymentMode_resolution [of unpriced "Str ''cash''"]
    by (simp add: unpriced_def)
  from a have "priceForPaymentMode (servicePrices consultation) (Str ''cash'') =
     Some \<lparr>sp_uuid = ''price-cash'', sp_name = ''Cash'', sp_price = ''20'',
           paymentMode = Some \<lparr>pm_uuid = ''cash''\<rparr>\<rparr>"
    by (auto simp: consultation_def)
  with b c show ?thesis by simp
qed

text \<open>
  C4. Every payload the waiver revision builds comes from a selected service, and its
  line item's amount is \<open>0.000\<close> when the visit is waived by recency; otherwise it is the
  resolved price's amount, and \<open>0.00\<close> when the service has no price at all.
\<close>

theorem createBillPayloadW_price:
  "createBillPayloadW cps pid waived pm sel = Inr payload \<longrightarrow>
     (\<exists>item. sel = Some item
        \<and> (waived \<longrightarrow> map price (lineItems payload) = [''0.000''])
        \<and> (\<forall>p. \<not> waived \<and> priceForPaymentMode (servicePrices item) pm = Some p \<longrightarrow>
              map price (lineItems payload) = [sp_price p])
        \<and> (\<not> waived \<and> servicePrices item = [] \<longrightarrow>
              map price (lineItems payload) = [''0.00'']))"
proof (cases sel)
  case None
  then show ?thesis by (simp add: createBillPayloadW_None)
next
  case (Some item)
  have "priceForPaymentMode (servicePrices item) pm = None" if "servicePrices item = []"
    using that by (simp add: priceForPaymentMode_None)
  with Some show ?thesis
    by (auto simp: createBillPayloadW_Some)
qed

text \<open>
  Witness for C4: the consultation under mode \<open>cash\<close>, waived and not waived, and the
  service without prices, not waived.
\<close>

theorem createBillPayloadW_price_witness:
  "(case createBillPayloadW None ''patient-1'' True (Str ''cash'') (Some consultation) of
      Inr payload \<Rightarrow> map price (lineItems payload) | Inl _ \<Rightarrow> []) = [''0.000'']
   \<and> (case createBillPayloadW None ''patient-1'' False (Str ''cash'') (Some consultation) of
      Inr payload \<Rightarrow> map price (lineItems payload) | Inl _ \<Rightarrow> []) = [''20'']
   \<and> (case createBillPayloadW None ''patient-1'' False (Str ''cash'') (Some unpriced) of
      Inr payload \<Rightarrow> map price (lineItems payload) | Inl _ \<Rightarrow> []) = [''0.00'']"
proof -
  obtain p1 where p1:
    "createBillPayloadW None ''patient-1'' True (Str ''cash'') (Some consultation) = Inr p1"
    by (simp add: createBillPayloadW_Some)
  obtain p2 where p2:
    "createBillPayloadW None ''patient-1'' False (Str ''cash'') (Some consultation) = Inr p2"
    by (simp add: createBillPayloadW_Some)
  obtain p3 where p3:
    "createBillPayloadW None ''patient-1'' False (Str ''cash'') (Some unpriced) = Inr p3"
    by (simp add: createBillPayloadW_Some)
  have r: "priceForPaymentMode (servicePrices consultation) (Str ''cash'') =
     Some \<lparr>sp_uuid = ''price-cash'', sp_name = ''Cash'', sp_price = ''20'',
           paymentMode = Some \<lparr>pm_uuid = ''cash''\<rparr>\<rparr>"
    by (simp add: priceForPaymentMode_def consultation_def)
  have "map price (lineItems p1) = [''0.000'']"
    using createBillPayloadW_price
      [of None "''patient-1''" True "Str ''cash''" "Some consultation" p1] p1
    by simp
  moreover have "map price (lineItems p2) = [''20'']"
    using createBillPayloadW_price
      [of None "''patient-1''" False "Str ''cash''" "Some consultation" p2] p2 r
    by simp
  moreover have "map price (lineItems p3) = [''0.00'']"
    using createBillPayloadW_price
      [of None "''patient-1''" False "Str ''cash''" "Some unpriced" p3] p3
    by (simp add: unpriced_def)
  ultimately show ?thesis using p1 p2 p3 by simp
qed

text \<open>
  C5. In the non-paying revision, an event that changes the payment mode, or that
  changes the attributes so that the non-paying classification flips, leaves a null
  payload and a null commit callback, whatever was staged or selected before. And in
  every state a session reaches from the mounted form, a staged payload is the one the
  builder yields for the selected item under the payment mode of that state, the item is
  offered in that state, the payment mode is set and the encounter is not non-paying:
  no draft survives from a superseded payment mode or classification.
\<close>

theorem draft_invalidated_on_change:
  "(pm \<noteq> paymentMethod st \<longrightarrow>
      evi_createBillPayload (extraVisitInfo (step cfg st (SetPaymentMethod pm))) = None
      \<and> evi_handleCreateExtraVisitInfo (extraVisitInfo (step cfg st (SetPaymentMethod pm))) = None)
   \<and> (isNonPaying (nonPayingDetails cfg) attrs \<noteq> isNonPaying (nonPayingDetails cfg) (attributes st) \<longrightarrow>
      evi_createBillPayload (extraVisitInfo (step cfg st (SetAttributes attrs))) = None
      \<and> evi_handleCreateExtraVisitInfo (extraVisitInfo (step cfg st (SetAttributes attrs))) = None)
   \<and> (\<forall>payload. evi_createBillPayload (extraVisitInfo (run cfg mounted evs)) = Some payload \<longrightarrow>
        (\<exists>item. selectedBillableItem (run cfg mounted evs) = Some item
           \<and> item \<in> set (offered cfg (run cfg mounted evs))
           \<and> createBillPayload (cashPoints cfg) (patientUuid cfg)
                 (paymentMethod (run cfg mounted evs)) (Some item) = Inr payload
           \<and> truthy (paymentMethod (run cfg mounted evs))
           \<and> \<not> isNonPaying (nonPayingDetails cfg) (attributes (run cfg mounted evs))))"
proof -
  let ?s = "run cfg mounted evs"
  have inv: "staged_current cfg ?s"
    by (rule staged_current_run) (rule staged_current_mounted)
  have reach: "\<exists>item. selectedBillableItem ?s = Some item
           \<and> item \<in> set (offered cfg ?s)
           \<and> createBillPayload (cashPoints cfg) (patientUuid cfg) (paymentMethod ?s) (Some item)
                = Inr payload
           \<and> truthy (paymentMethod ?s)
           \<and> \<not> isNonPaying (nonPayingDetails cfg) (attributes ?s)"
    if "evi_createBillPayload (extraVisitInfo ?s) = Some payload" for payload
  proof -
    from inv that obtain item where item: "selectedBillableItem ?s = Some item"
      "item \<in> set (offered cfg ?s)"
      "createBillPayload (cashPoints cfg) (patientUuid cfg) (paymentMethod ?s) (Some item) = Inr payload"
      by (auto simp: staged_current_def split: option.splits)
    with offered_paying [of item cfg ?s] show ?thesis by blast
  qed
  from step_pm_change_empties [of pm st cfg] step_category_change_empties [of cfg attrs st] reach
  show ?thesis by blast
qed

text \<open>
  Witness for C5: with the consultation staged under \<open>cash\<close>, a switch to \<open>nhif\<close> and
  a switch to the exempt category each leave a null payload; the staged payload is the
  builder's for the consultation under \<open>cash\<close>.
\<close>

theorem draft_invalidated_on_change_witness:
  "evi_createBillPayload (extraVisitInfo staged) = Some consultation_draft
   \<and> evi_createBillPayload (extraVisitInfo (step clinic staged (SetPaymentMethod (Str ''nhif'')))) = None
   \<and> evi_handleCreateExtraVisitInfo
        (extraVisitInfo (step clinic staged (SetPaymentMethod (Str ''nhif'')))) = None
   \<and> evi_createBillPayload (extraVisitInfo (step clinic staged (SetAttributes [exempt]))) = None
   \<and> createBillPayload (cashPoints clinic) (patientUuid clinic) (paymentMethod staged)
        (Some consultation) = Inr consultation_draft"
proof -
  have pm: "Str ''nhif'' \<noteq> paymentMethod staged"
    by (simp add: staged_eq)
  have st: "evi_createBillPayload (extraVisitInfo staged) = Some consultation_draft"
    "selectedBillableItem staged = Some consultation"
    by (simp_all add: staged_eq)
  from draft_invalidated_on_change
    [of "Str ''nhif''" staged clinic "[exempt]"
      "[SetPaymentMethod (Str ''cash''), SelectService consultation]"]
    staged_category_change pm st
  show ?thesis unfolding staged_def [symmetric] by auto
qed

text \<open>
  Counterexample for C6: with the consultation staged, selecting the dressing leads
  from \<open>Drafted\<close> straight to \<open>Drafted\<close>, with another payload and no \<open>Empty\<close> state
  between the two.
\<close>

theorem drafted_to_drafted_counterexample:
  "drafted staged
   \<and> drafted (step clinic staged (SelectService dressing))
   \<and> evi_createBillPayload (extraVisitInfo staged) = Some consultation_draft
   \<and> evi_createBillPayload (extraVisitInfo (step clinic staged (SelectService dressing)))
       = Some dressing_draft"
  by (simp add: step_staged_dressing drafted_def) (simp add: staged_eq)

text \<open>
  C6, amended. From \<open>Drafted\<close>, a change of the payment mode or of the non-paying
  classification leads to \<open>Empty\<close>. A step from \<open>Drafted\<close> to \<open>Drafted\<close> either leaves
  what is staged untouched, or is the selection of an offered service: then the staged
  value is replaced whole by the payload the builder yields for that service under the
  payment mode in force, with its commit callback and the attributes of that moment.
\<close>

theorem drafted_transitions:
  "drafted st \<longrightarrow>
     (pm \<noteq> paymentMethod st \<longrightarrow> \<not> drafted (step cfg st (SetPaymentMethod pm)))
     \<and> (isNonPaying (nonPayingDetails cfg) attrs \<noteq> isNonPaying (nonPayingDetails cfg) (attributes st)
          \<longrightarrow> \<not> drafted (step cfg st (SetAttributes attrs)))
     \<and> (drafted (step cfg st ev) \<longrightarrow>
          extraVisitInfo (step cfg st ev) = extraVisitInfo st
          \<or> (\<exists>item payload. ev = SelectService item \<and> item \<in> set (offered cfg st)
               \<and> createBillPayload (cashPoints cfg) (patientUuid cfg) (paymentMethod st)
                     (Some item) = Inr payload
               \<and> extraVisitInfo (step cfg st ev) =
                    \<lparr>evi_createBillPayload = Some payload,
                     evi_handleCreateExtraVisitInfo = Some payload,
                     evi_attributes = attributes st\<rparr>))"
proof -
  have a: "\<not> drafted (step cfg st (SetPaymentMethod pm))" if "pm \<noteq> paymentMethod st"
    using step_pm_change_empties [OF that] by (simp add: drafted_def)
  have b: "\<not> drafted (step cfg st (SetAttributes attrs))"
    if "isNonPaying (nonPayingDetails cfg) attrs \<noteq> isNonPaying (nonPayingDetails cfg) (attributes st)"
    using step_category_change_empties [OF that] by (simp add: drafted_def)
  have c: "extraVisitInfo (step cfg st ev) = extraVisitInfo st
          \<or> (\<exists>item payload. ev = SelectService item \<and> item \<in> set (offered cfg st)
               \<and> createBillPayload (cashPoints cfg) (patientUuid cfg) (paymentMethod st)
                     (Some item) = Inr payload
               \<and> extraVisitInfo (step cfg st ev) =
                    \<lparr>evi_createBillPayload = Some payload,
                     evi_handleCreateExtraVisitInfo = Some payload,
                     evi_attributes = attributes st\<rparr>)"
    if "drafted (step cfg st ev)"
  proof (cases ev)
    case (SetPaymentMethod pm')
    with that show ?thesis
      by (auto simp: step_SetPaymentMethod drafted_def reset_effect_empty split: if_splits)
  next
    case (SetAttributes attrs')
    with that show ?thesis
      by (auto simp: step_SetAttributes drafted_def reset_effect_empty split: if_splits)
  next
    case (SelectService item)
    then show ?thesis
      using createBillPayload_projr [of "cashPoints cfg" "patientUuid cfg" "paymentMethod st" item]
      by (auto simp: step_SelectService)
  next
    case (CommitBill ok)
    then show ?thesis
      by (simp add: step_CommitBill split: option.splits)
  qed
  from a b c show ?thesis by blast
qed

text \<open>
  Witness for C6: from the staged consultation, the two changes lead to \<open>Empty\<close> and the
  selection of the dressing leads to \<open>Drafted\<close> with another staged value.
\<close>

theorem drafted_transitions_witness:
  "drafted staged
   \<and> \<not> drafted (step clinic staged (SetPaymentMethod (Str ''nhif'')))
   \<and> \<not> drafted (step clinic staged (SetAttributes [exempt]))
   \<and> drafted (step clinic staged (SelectService dressing))
   \<and> extraVisitInfo (step clinic staged (SelectService dressing)) \<noteq> extraVisitInfo staged"
proof -
  have d: "drafted staged"
    by (simp add: staged_eq drafted_def)
  have pm: "Str ''nhif'' \<noteq> paymentMethod staged"
    by (simp add: staged_eq)
  have e: "drafted (step clinic staged (SelectService dressing))"
    by (simp add: step_staged_dressing drafted_def)
  have f: "extraVisitInfo (step clinic staged (SelectService dressing)) \<noteq> extraVisitInfo staged"
    using drafts_differ by (simp add: step_staged_dressing) (simp add: staged_eq)
  from drafted_transitions [of staged "Str ''nhif''" clinic "[exempt]" "SelectService dressing"]
    d staged_category_change pm e f
  show ?thesis by blast
qed

text \<open>
  C7. Every payload built, in either revision, has exactly one line item, with quantity
  1, order 0 and payment status \<open>PENDING\<close>; the payload's status is \<open>PENDING\<close> and its
  payments are empty.
\<close>

theorem createBillPayload_single_pending_item:
  "(createBillPayload cps pid pm sel = Inr payload
      \<or> createBillPayloadW cps pid waived pm sel = Inr payload) \<longrightarrow>
     (\<exists>li. lineItems payload = [li] \<and> quantity li = 1 \<and> lineItemOrder li = 0
          \<and> paymentStatus li = ''PENDING'')
     \<and> status payload = ''PENDING'' \<and> payments payload = []"
proof (cases sel)
  case None
  then show ?thesis by (simp add: createBillPayload_None createBillPayloadW_None)
next
  case (Some item)
  then show ?thesis
    by (auto simp: createBillPayload_Some createBillPayloadW_Some)
qed

text \<open>Witness for C7: the payload of the consultation under mode \<open>cash\<close>.\<close>

theorem createBillPayload_single_pending_item_witness:
  "(case createBillPayload None ''patient-1'' (Str ''cash'') (Some consultation) of
      Inr payload \<Rightarrow>
        (map quantity (lineItems payload), map lineItemOrder (lineItems payload),
         map paymentStatus (lineItems payload), status payload, payments payload)
    | Inl _ \<Rightarrow> ([], [], [], [], [()])) = ([1], [0], [''PENDING''], ''PENDING'', [])"
proof -
  obtain p where p:
    "createBillPayload None ''patient-1'' (Str ''cash'') (Some consultation) = Inr p"
    by (simp add: createBillPayload_Some)
  from createBillPayload_single_pending_item
    [of None "''patient-1''" "Str ''cash''" "Some consultation" p] p
  obtain li where "lineItems p = [li]" "quantity li = 1" "lineItemOrder li = 0"
    "paymentStatus li = ''PENDING''" "status p = ''PENDING''" "payments p = []"
    by blast
  with p show ?thesis by simp
qed

text \<open>
  Counterexample for C8: for a start that \<^verbatim>\<open>Date\<close> cannot parse, the last-visit record
  is not null; it is populated, with day count \<^verbatim>\<open>NaN\<close>. And for an encounter with no
  period both revisions raise.
\<close>

theorem lastVisitInfo_malformed_counterexample:
  "lastVisitInfo invalid_date_text (visit_at Malformed) 1700000000000 =
     Inr (Some \<lparr>lv_diffDays = NaN, lv_type = [], lv_location = [],
            dateFormatted = ''Invalid Date''\<rparr>)
   \<and> lastVisitInfo invalid_date_text no_period 1700000000000 = Inl TypeError
   \<and> isWaived no_period 1700000000000 = Inl TypeError"
  by (simp add: visit_at_def no_period_def lastVisitInfo_entry isWaived_entry invalid_date_text_def)

text \<open>
  C8, amended. With no visit data, no \<^verbatim>\<open>entry\<close> or an empty one, the evaluator
  returns null (the waiver flag is false) and raises nothing. With an entry whose period
  is present it raises nothing either, whatever the start, but the last-visit record is
  never null; it is populated. For a start that is absent or that \<^verbatim>\<open>Date\<close> cannot
  read, its day count is \<^verbatim>\<open>NaN\<close>, its date text is what the formatter makes of an
  invalid date, and the waiver flag is false. For a start that is present but
  \<^verbatim>\<open>null\<close>, the start is read as the epoch: the day count is the number of days,
  rounded up, between the epoch and the clock reading, the date text is that of the
  epoch, and the waiver flag is that count \<open>\<le> 7\<close>.
\<close>

theorem lastVisitInfo_absent_or_invalid:
  "((visitData = None \<or> visitData = Some \<lparr>entry = None\<rparr> \<or> visitData = Some \<lparr>entry = Some []\<rparr>) \<longrightarrow>
      lastVisitInfo format visitData today = Inr None \<and> isWaived visitData today = Inr False)
   \<and> (period r = Some p \<longrightarrow>
        (\<exists>info. lastVisitInfo format (Some \<lparr>entry = Some (\<lparr>resource = Some r\<rparr> # es)\<rparr>) today
                  = Inr (Some info))
        \<and> (\<exists>w. isWaived (Some \<lparr>entry = Some (\<lparr>resource = Some r\<rparr> # es)\<rparr>) today = Inr w))
   \<and> (period r = Some p \<and> (start p = Missing \<or> start p = Malformed) \<longrightarrow>
        lastVisitInfo format (Some \<lparr>entry = Some (\<lparr>resource = Some r\<rparr> # es)\<rparr>) today =
          Inr (Some \<lparr>lv_diffDays = NaN,
                lv_type = or_empty (str_or (type_coding_display r) (type_text r)),
                lv_location = or_empty (location_display r),
                dateFormatted = format NaN\<rparr>)
        \<and> isWaived (Some \<lparr>entry = Some (\<lparr>resource = Some r\<rparr> # es)\<rparr>) today = Inr False)
   \<and> (period r = Some p \<and> start p = NullStart \<longrightarrow>
        lastVisitInfo format (Some \<lparr>entry = Some (\<lparr>resource = Some r\<rparr> # es)\<rparr>) today =
          Inr (Some \<lparr>lv_diffDays = Num \<lceil>real_of_int \<bar>today\<bar> / (1000 * 60 * 60 * 24)\<rceil>,
                lv_type = or_empty (str_or (type_coding_display r) (type_text r)),
                lv_location = or_empty (location_display r),
                dateFormatted = format (Num 0)\<rparr>)
        \<and> isWaived (Some \<lparr>entry = Some (\<lparr>resource = Some r\<rparr> # es)\<rparr>) today =
            Inr (\<lceil>real_of_int \<bar>today\<bar> / (1000 * 60 * 60 * 24)\<rceil> \<le> 7))"
proof -
  let ?v = "Some \<lparr>entry = Some (\<lparr>resource = Some r\<rparr> # es)\<rparr>"
  have a: "lastVisitInfo format visitData today = Inr None \<and> isWaived visitData today = Inr False"
    if "visitData = None \<or> visitData = Some \<lparr>entry = None\<rparr> \<or> visitData = Some \<lparr>entry = Some []\<rparr>"
    using that by (auto simp: lastVisitInfo_def isWaived_def)
  have b: "(\<exists>info. lastVisitInfo format ?v today = Inr (Some info))
        \<and> (\<exists>w. isWaived ?v today = Inr w)"
    if "period r = Some p"
    using that by (simp add: lastVisitInfo_entry isWaived_entry)
  have c: "lastVisitInfo format ?v today =
          Inr (Some \<lparr>lv_diffDays = NaN,
                lv_type = or_empty (str_or (type_coding_display r) (type_text r)),
                lv_location = or_empty (location_display r),
                dateFormatted = format NaN\<rparr>)
        \<and> isWaived ?v today = Inr False"
    if "period r = Some p \<and> (start p = Missing \<or> start p = Malformed)"
    using that by (auto simp: lastVisitInfo_entry isWaived_entry)
  have epoch: "diffDays today (Num 0) = Num \<lceil>real_of_int \<bar>today\<bar> / (1000 * 60 * 60 * 24)\<rceil>"
    by (simp only: diffDays.simps Let_def diff_0_right)
  have d: "lastVisitInfo format ?v today =
          Inr (Some \<lparr>lv_diffDays = Num \<lceil>real_of_int \<bar>today\<bar> / (1000 * 60 * 60 * 24)\<rceil>,
                lv_type = or_empty (str_or (type_coding_display r) (type_text r)),
                lv_location = or_empty (location_display r),
                dateFormatted = format (Num 0)\<rparr>)
        \<and> isWaived ?v today = Inr (\<lceil>real_of_int \<bar>today\<bar> / (1000 * 60 * 60 * 24)\<rceil> \<le> 7)"
    if "period r = Some p \<and> start p = NullStart"
    using that by (simp add: lastVisitInfo_entry isWaived_entry epoch del: diffDays.simps)
  from a b c d show ?thesis by blast
qed

text \<open>
  Witness for C8: an empty bundle, a visit whose start is absent, and a visit whose start
  is null, read in November 2023 as 19676 days back.
\<close>

theorem lastVisitInfo_absent_or_invalid_witness:
  "lastVisitInfo invalid_date_text (Some \<lparr>entry = Some []\<rparr>) 1700000000000 = Inr None
   \<and> isWaived (Some \<lparr>entry = Some []\<rparr>) 1700000000000 = Inr False
   \<and> lastVisitInfo invalid_date_text (visit_at Missing) 1700000000000 =
       Inr (Some \<lparr>lv_diffDays = NaN, lv_type = [], lv_location = [],
              dateFormatted = ''Invalid Date''\<rparr>)
   \<and> isWaived (visit_at Missing) 1700000000000 = Inr False
   \<and> lastVisitInfo utc_date_text (visit_at NullStart) 1700000000000 =
       Inr (Some \<lparr>lv_diffDays = Num 19676, lv_type = [], lv_location = [],
              dateFormatted = ''01 01 1970''\<rparr>)
   \<and> isWaived (visit_at NullStart) 1700000000000 = Inr False"
proof -
  let ?r = "\<lambda>s. \<lparr>period = Some \<lparr>start = s\<rparr>, type_coding_display = None,
     type_text = None, location_display = None\<rparr>"
  have m: "lastVisitInfo invalid_date_text (Some \<lparr>entry = Some []\<rparr>) 1700000000000 = Inr None
     \<and> isWaived (Some \<lparr>entry = Some []\<rparr>) 1700000000000 = Inr False
     \<and> lastVisitInfo invalid_date_text (visit_at Missing) 1700000000000 =
         Inr (Some \<lparr>lv_diffDays = NaN, lv_type = [], lv_location = [],
                dateFormatted = ''Invalid Date''\<rparr>)
     \<and> isWaived (visit_at Missing) 1700000000000 = Inr False"
    using lastVisitInfo_absent_or_invalid
      [of "Some \<lparr>entry = Some []\<rparr>" invalid_date_text 1700000000000 "?r Missing"
        "\<lparr>start = Missing\<rparr>" "[]"]
    by (simp add: visit_at_def invalid_date_text_def)
  have n: "lastVisitInfo utc_date_text (visit_at NullStart) 1700000000000 =
         Inr (Some \<lparr>lv_diffDays = Num 19676, lv_type = [], lv_location = [],
                dateFormatted = ''01 01 1970''\<rparr>)
     \<and> isWaived (visit_at NullStart) 1700000000000 = Inr False"
    using lastVisitInfo_absent_or_invalid
      [of "Some \<lparr>entry = Some []\<rparr>" utc_date_text 1700000000000 "?r NullStart"
        "\<lparr>start = NullStart\<rparr>" "[]"]
    by (simp add: visit_at_def utc_date_text_def)
  from m n show ?thesis by simp
qed

text \<open>
  C9. A commit returns normally whatever the request does: the error does not propagate.
  It shows the success snackbar when the request succeeds and the error snackbar when it
  fails, and it changes nothing else: what is staged, the selection, the payment mode
  and the attributes stay. So after a failed commit of the staged draft the same payload
  and callback are still staged for a retry.
\<close>

theorem handleCreateExtraVisitInfo_notifies:
  "\<exists>st'. handleCreateExtraVisitInfo cpb payload st = Inr st'
     \<and> extraVisitInfo st' = extraVisitInfo st
     \<and> selectedBillableItem st' = selectedBillableItem st
     \<and> paymentMethod st' = paymentMethod st
     \<and> attributes st' = attributes st
     \<and> (\<forall>r. cpb payload = Inr r \<longrightarrow>
           snackbars st' = snackbars st @
             [\<lparr>title = ''Patient bill'', subtitle = ''Bill created successfully'',
               kind = ''success''\<rparr>])
     \<and> (\<forall>e. cpb payload = Inl e \<longrightarrow>
           snackbars st' = snackbars st @
             [\<lparr>title = ''Bill creation error'',
               subtitle = ''An error occurred while creating the bill'', kind = ''error''\<rparr>])
     \<and> (evi_handleCreateExtraVisitInfo (extraVisitInfo st) = Some payload \<longrightarrow>
           extraVisitInfo (step cfg st (CommitBill False)) = extraVisitInfo st
           \<and> map kind (snackbars (step cfg st (CommitBill False))) =
               map kind (snackbars st) @ [''error''])"
proof -
  have "extraVisitInfo (step cfg st (CommitBill False)) = extraVisitInfo st
      \<and> map kind (snackbars (step cfg st (CommitBill False))) = map kind (snackbars st) @ [''error'']"
    if "evi_handleCreateExtraVisitInfo (extraVisitInfo st) = Some payload"
    using that by (simp add: step_CommitBill)
  then show ?thesis
    by (auto simp: handleCreateExtraVisitInfo_cases)
qed

text \<open>
  Witness for C9: a failed commit of the staged consultation shows one error snackbar
  and leaves the draft staged; a successful one shows the success snackbar.
\<close>

theorem handleCreateExtraVisitInfo_notifies_witness:
  "extraVisitInfo (step clinic staged (CommitBill False)) = extraVisitInfo staged
   \<and> map kind (snackbars (step clinic staged (CommitBill False))) = [''error'']
   \<and> evi_handleCreateExtraVisitInfo (extraVisitInfo (step clinic staged (CommitBill False)))
       = Some consultation_draft
   \<and> handleCreateExtraVisitInfo (\<lambda>p. Inr ()) consultation_draft staged =
       (Inr (staged\<lparr>snackbars := [success_snackbar]\<rparr>) :: unit + form_state)"
proof -
  have h: "evi_handleCreateExtraVisitInfo (extraVisitInfo staged) = Some consultation_draft"
    "snackbars staged = []"
    by (simp_all add: staged_eq)
  from handleCreateExtraVisitInfo_notifies
    [of "\<lambda>p. Inr () :: unit + unit" consultation_draft staged clinic] h
  obtain st' where st':
    "handleCreateExtraVisitInfo (\<lambda>p. Inr () :: unit + unit) consultation_draft staged = Inr st'"
    "extraVisitInfo st' = extraVisitInfo staged"
    "selectedBillableItem st' = selectedBillableItem staged"
    "paymentMethod st' = paymentMethod staged"
    "attributes st' = attributes staged"
    "snackbars st' = [success_snackbar]"
    "extraVisitInfo (step clinic staged (CommitBill False)) = extraVisitInfo staged"
    "map kind (snackbars (step clinic staged (CommitBill False))) = [''error'']"
    by (auto simp: success_snackbar_def)
  have "st' = staged\<lparr>snackbars := [success_snackbar]\<rparr>"
    using st'(2-6) by simp
  with st' h show ?thesis by simp
qed

text \<open>
  C10. In every payload built, in either revision, the line item's \<^verbatim>\<open>priceName\<close> is
  the constant \<open>Default\<close>: the resolved price's own name is never copied, whichever
  price was resolved.
\<close>

theorem priceName_Default:
  "(createBillPayload cps pid pm sel = Inr payload
      \<or> createBillPayloadW cps pid waived pm sel = Inr payload) \<longrightarrow>
     map priceName (lineItems payload) = [''Default'']"
proof (cases sel)
  case None
  then show ?thesis by (simp add: createBillPayload_None createBillPayloadW_None)
next
  case (Some item)
  then show ?thesis
    by (auto simp: createBillPayload_Some createBillPayloadW_Some)
qed

text \<open>
  Witness for C10: for the consultation under mode \<open>cash\<close> the resolved price is named
  \<open>Cash\<close>, and the line item is named \<open>Default\<close> in both revisions.
\<close>

theorem priceName_Default_witness:
  "map_option sp_name (priceForPaymentMode (servicePrices consultation) (Str ''cash'')) = Some ''Cash''
   \<and> (case createBillPayload None ''patient-1'' (Str ''cash'') (Some consultation) of
        Inr payload \<Rightarrow> map priceName (lineItems payload) | Inl _ \<Rightarrow> []) = [''Default'']
   \<and> (case createBillPayloadW None ''patient-1'' False (Str ''cash'') (Some consultation) of
        Inr payload \<Rightarrow> map priceName (lineItems payload) | Inl _ \<Rightarrow> []) = [''Default'']"
proof -
  obtain p1 where p1:
    "createBillPayload None ''patient-1'' (Str ''cash'') (Some consultation) = Inr p1"
    by (simp add: createBillPayload_Some)
  obtain p2 where p2:
    "createBillPayloadW None ''patient-1'' False (Str ''cash'') (Some consultation) = Inr p2"
    by (simp add: createBillPayloadW_Some)
  have "map priceName (lineItems p1) = [''Default'']"
    using priceName_Default [of None "''patient-1''" "Str ''cash''" "Some consultation" p1] p1
    by simp
  moreover have "map priceName (lineItems p2) = [''Default'']"
    using priceName_Default [of None "''patient-1''" "Str ''cash''" "Some consultation" p2 False] p2
    by simp
  moreover have "map_option sp_name (priceForPaymentMode (servicePrices consultation) (Str ''cash''))
      = Some ''Cash''"
    by (simp add: priceForPaymentMode_def consultation_def)
  ultimately show ?thesis using p1 p2 by simp
qed

end
